theory Spec2Isabelle
  imports Main "HOL-Library.Sublist"
begin

section \<open>Go library functions used by the link checker\<close>

text \<open>
  The checker (\<^verbatim>\<open>src/main.go\<close>) is built from a handful of functions of Go's standard
  library. Strings are byte sequences, as in Go. \<open>Index\<close>, \<open>Contains\<close>, \<open>Cut\<close> and
  \<open>HasPrefix\<close> follow package \<^verbatim>\<open>strings\<close>: \<open>Cut s sep\<close> slices \<open>s\<close> around the first
  occurrence of \<open>sep\<close> and returns \<open>(s, "", false)\<close> when there is none.
\<close>

fun Index :: "string \<Rightarrow> string \<Rightarrow> nat option" where
  "Index [] sep = (if sep = [] then Some 0 else None)"
| "Index (c # cs) sep =
     (if prefix sep (c # cs) then Some 0 else map_option Suc (Index cs sep))"

definition Contains :: "string \<Rightarrow> string \<Rightarrow> bool" where
  "Contains s sep = (Index s sep \<noteq> None)"

definition Cut :: "string \<Rightarrow> string \<Rightarrow> string \<times> string \<times> bool" where
  "Cut s sep =
     (case Index s sep of
        Some i \<Rightarrow> (take i s, drop (i + length sep) s, True)
      | None \<Rightarrow> (s, [], False))"

definition HasPrefix :: "string \<Rightarrow> string \<Rightarrow> bool" where
  "HasPrefix s p = prefix p s"

text \<open>
  \<^verbatim>\<open>strings.ToLower\<close> on the ASCII letters; other bytes are kept. (Go also maps letters
  beyond ASCII, none of which becomes or stops being one of the bytes \<^verbatim>\<open>m\<close>, \<^verbatim>\<open>d\<close> and
  \<^verbatim>\<open>.\<close> that the checker compares an extension with.)
\<close>

definition lower_char :: "char \<Rightarrow> char" where
  "lower_char c =
     (let n = (of_char c :: nat) in if 65 \<le> n \<and> n \<le> 90 then char_of (n + 32) else c)"

definition ToLower :: "string \<Rightarrow> string" where
  "ToLower s = map lower_char s"

text \<open>
  \<^verbatim>\<open>strings.Split(s, sep)\<close> for a separator of one byte (the checker only splits at
  \<^verbatim>\<open>"."\<close>): the result always has at least one element.
\<close>

fun Split :: "string \<Rightarrow> char \<Rightarrow> string list" where
  "Split [] sep = [] # []"
| "Split (c # cs) sep =
     (if c = sep then [] # Split cs sep
      else (case Split cs sep of [] \<Rightarrow> [c] # [] | p # ps \<Rightarrow> (c # p) # ps))"

text \<open>\<^verbatim>\<open>strconv.Itoa\<close>, in decimal.\<close>

definition digit_char :: "nat \<Rightarrow> char" where
  "digit_char d = ''0123456789'' ! d"

fun nat_digits :: "nat \<Rightarrow> string" where
  "nat_digits n = (if n < 10 then [digit_char n] else nat_digits (n div 10) @ [digit_char (n mod 10)])"

definition Itoa :: "int \<Rightarrow> string" where
  "Itoa i = (if i < 0 then CHR ''-'' # nat_digits (nat (- i)) else nat_digits (nat i))"

text \<open>
  \<^verbatim>\<open>path.Base\<close>, which is what \<^verbatim>\<open>f.FileInfo().Name()\<close> of an archive entry returns for
  the entry's header name: trailing slashes are dropped, then everything up to the last
  slash.
\<close>

definition path_Base :: "string \<Rightarrow> string" where
  "path_Base p =
     (if p = [] then ''.''
      else let q = rev (dropWhile (\<lambda>c. c = CHR ''/'') (rev p));
               b = rev (takeWhile (\<lambda>c. c \<noteq> CHR ''/'') (rev q))
           in if b = [] then ''/'' else b)"

section \<open>Regular expressions with leftmost-first matching\<close>

text \<open>
  Package \<^verbatim>\<open>regexp\<close> returns the leftmost match and, among the matches starting there,
  the one a backtracking search finds first. \<open>rmatch r (b, s)\<close> lists, in that order,
  every way \<open>r\<close> can match a prefix of \<open>s\<close>, each given by the input left over; \<open>b\<close>
  tells whether \<open>s\<close> is the whole text, for the anchor \<^verbatim>\<open>^\<close> (\<open>Bol\<close>). A greedy star
  tries another round first, a lazy one tries to stop first. All three patterns of the
  checker consist of ASCII literals and of classes that either hold ASCII bytes only or
  exclude ASCII bytes only, so matching bytes and matching UTF-8 runes agree on them.
\<close>

datatype regex =
    Eps
  | Bol
  | Atom "char \<Rightarrow> bool"
  | Seq regex regex
  | Alt regex regex
  | Star regex
  | LazyStar regex

fun rmatch :: "regex \<Rightarrow> bool \<times> string \<Rightarrow> (bool \<times> string) list" where
  "rmatch Eps c = [c]"
| "rmatch Bol c = (if fst c then [c] else [])"
| "rmatch (Atom p) c =
     (case snd c of [] \<Rightarrow> [] | x # xs \<Rightarrow> if p x then [(False, xs)] else [])"
| "rmatch (Seq r1 r2) c = concat (map (rmatch r2) (rmatch r1 c))"
| "rmatch (Alt r1 r2) c = rmatch r1 c @ rmatch r2 c"
| "rmatch (Star r) c =
     concat (map (\<lambda>c'. if length (snd c') < length (snd c) then rmatch (Star r) c' else [])
                 (rmatch r c)) @ [c]"
| "rmatch (LazyStar r) c =
     c # concat (map (\<lambda>c'. if length (snd c') < length (snd c) then rmatch (LazyStar r) c' else [])
                     (rmatch r c))"

text \<open>
  \<^verbatim>\<open>FindString\<close>: the text of the leftmost match, \<^verbatim>\<open>""\<close> without one.
  \<^verbatim>\<open>FindAll(content, -1)\<close>: the successive matches, each search starting where the
  previous match ended; an empty match next to the previous match is dropped, and the
  search moves on by one position after an empty match.
\<close>

fun find_first :: "regex \<Rightarrow> bool \<Rightarrow> string \<Rightarrow> string option" where
  "find_first r b [] =
     (case rmatch r (b, []) of [] \<Rightarrow> None | c # _ \<Rightarrow> Some [])"
| "find_first r b (x # xs) =
     (case rmatch r (b, x # xs) of
        [] \<Rightarrow> find_first r False xs
      | c # _ \<Rightarrow> Some (take (length (x # xs) - length (snd c)) (x # xs)))"

definition FindString :: "regex \<Rightarrow> string \<Rightarrow> string" where
  "FindString r s = (case find_first r True s of None \<Rightarrow> [] | Some m \<Rightarrow> m)"

function find_all :: "regex \<Rightarrow> bool \<Rightarrow> bool \<Rightarrow> string \<Rightarrow> string list" where
  "find_all r b adj s =
     (case rmatch r (b, s) of
        [] \<Rightarrow> (case s of [] \<Rightarrow> [] | x # xs \<Rightarrow> find_all r False False xs)
      | c # _ \<Rightarrow>
          if length (snd c) < length s
          then take (length s - length (snd c)) s # find_all r False True (snd c)
          else (if adj then [] else [] # []) @
               (case s of [] \<Rightarrow> [] | x # xs \<Rightarrow> find_all r False False xs))"
  by pat_completeness auto
termination
  by (relation "measure (\<lambda>(r, b, adj, s). length s)") auto

definition FindAll :: "regex \<Rightarrow> string \<Rightarrow> string list" where
  "FindAll r s = find_all r True False s"

text \<open>The pattern syntax of the three expressions, built from the core above.\<close>

definition Lit :: "char \<Rightarrow> regex" where
  "Lit c = Atom (\<lambda>x. x = c)"

definition Dot :: regex where
  "Dot = Atom (\<lambda>x. x \<noteq> CHR 0x0A)"

definition Opt :: "regex \<Rightarrow> regex" where
  "Opt r = Alt r Eps"

definition Plus :: "regex \<Rightarrow> regex" where
  "Plus r = Seq r (Star r)"

fun Repeat :: "regex \<Rightarrow> nat \<Rightarrow> nat \<Rightarrow> regex" where
  "Repeat r 0 0 = Eps"
| "Repeat r 0 (Suc n) = Opt (Seq r (Repeat r 0 n))"
| "Repeat r (Suc m) n = Seq r (Repeat r m (n - 1))"

fun Seqs :: "regex list \<Rightarrow> regex" where
  "Seqs [] = Eps"
| "Seqs [r] = r"
| "Seqs (r # rs) = Seq r (Seqs rs)"

definition is_digit :: "char \<Rightarrow> bool" where
  "is_digit c = (let n = (of_char c :: nat) in 48 \<le> n \<and> n \<le> 57)"

definition is_lower :: "char \<Rightarrow> bool" where
  "is_lower c = (let n = (of_char c :: nat) in 97 \<le> n \<and> n \<le> 122)"

text \<open>
  The expression of \<^verbatim>\<open>findAndCheckMdFile\<close> for a markdown link:
  \<^verbatim>\<open>\[[^\[\]]*?\]\(.*?\)|^\[*?\]\(.*?\)\<close>
\<close>
definition mdLinkRegexp :: regex where
  "mdLinkRegexp =
     Alt (Seqs [Lit CHR ''['', LazyStar (Atom (\<lambda>c. c \<noteq> CHR ''['' \<and> c \<noteq> CHR '']'')),
                Lit CHR '']'', Lit CHR ''('', LazyStar Dot, Lit CHR '')''])
         (Seqs [Bol, LazyStar (Lit CHR ''[''),
                Lit CHR '']'', Lit CHR ''('', LazyStar Dot, Lit CHR '')''])"

text \<open>
  The expression of \<^verbatim>\<open>checkMdLink\<close> for the label in front of a target:
  \<^verbatim>\<open>(^\[(.*?)]\()\<close>
\<close>
definition linkHeadRegexp :: regex where
  "linkHeadRegexp = Seqs [Bol, Lit CHR ''['', LazyStar Dot, Lit CHR '']'', Lit CHR ''('']"

text \<open>
  The expression of \<^verbatim>\<open>checkMdLink\<close> for an absolute HTTP(S) address:
  \<^verbatim>\<open>(^https?:\/\/)([\da-z\.-]+)\.([a-z\.]{2,6})\/?.*\<close>
\<close>
definition httpUrlRegexp :: regex where
  "httpUrlRegexp =
     Seqs [Bol, Lit CHR ''h'', Lit CHR ''t'', Lit CHR ''t'', Lit CHR ''p'', Opt (Lit CHR ''s''),
           Lit CHR '':'', Lit CHR ''/'', Lit CHR ''/'',
           Plus (Atom (\<lambda>c. is_digit c \<or> is_lower c \<or> c = CHR ''.'' \<or> c = CHR ''-'')),
           Lit CHR ''.'',
           Repeat (Atom (\<lambda>c. is_lower c \<or> c = CHR ''.'')) 2 6,
           Opt (Lit CHR ''/''),
           Star Dot]"


section \<open>The platform: errors, events and oracles\<close>

text \<open>
  A Go \<^verbatim>\<open>error\<close> is modelled by its message, \<^verbatim>\<open>nil\<close> by \<open>None\<close>. Everything the
  checker does to the outside is an \<open>event\<close>, and the \<open>world\<close> is the list of events
  so far, oldest first. What the outside answers is given by an \<open>env\<close>: one oracle per
  operation, asked with the number of events so far, so that the same request may be
  answered differently at different times. \<^verbatim>\<open>http.Get\<close> returns a response and an error;
  \<^verbatim>\<open>filepath.Join\<close> and the global \<^verbatim>\<open>execPath\<close> are parameters as well. An archive entry
  carries its header name, whether it is a directory, and what opening and reading it
  yields.
\<close>

type_synonym error = string

record response =
  StatusCode :: int
  Body :: string

datatype event =
    LookupIP string
  | Get string
  | Sleep nat
  | Println string
  | MkdirAll string
  | Create string
  | Copy string string
  | OpenReader string
  | RemoveAll string

type_synonym world = "event list"

datatype zip_data = OpenFails error | ReadFails error | Content string

record zip_File =
  FileHeader_Name :: string
  IsDir :: bool
  Data :: zip_data

record env =
  execPath :: string
  filepath_Join :: "string \<Rightarrow> string \<Rightarrow> string"
  dns :: "nat \<Rightarrow> string \<Rightarrow> error option"
  http :: "nat \<Rightarrow> string \<Rightarrow> response option \<times> error option"
  mkdir :: "nat \<Rightarrow> string \<Rightarrow> error option"
  creat :: "nat \<Rightarrow> string \<Rightarrow> error option"
  copy :: "nat \<Rightarrow> string \<Rightarrow> string \<Rightarrow> error option"
  unzip :: "nat \<Rightarrow> string \<Rightarrow> error + zip_File list"
  rmdir :: "nat \<Rightarrow> string \<Rightarrow> error option"

text \<open>
  A call either returns a value, or panics (which ends the whole process), or never
  returns. The first two are an \<open>outcome\<close>, with the world reached; the last is \<open>None\<close>.
\<close>

datatype 'a outcome = Return 'a world | Panic string world

definition nil_deref :: string where
  "nil_deref = ''invalid memory address or nil pointer dereference''"

definition bind :: "'a outcome option \<Rightarrow> ('a \<Rightarrow> world \<Rightarrow> 'b outcome option) \<Rightarrow> 'b outcome option" where
  "bind m f =
     (case m of
        None \<Rightarrow> None
      | Some (Panic msg w) \<Rightarrow> Some (Panic msg w)
      | Some (Return x w) \<Rightarrow> f x w)"

definition net_LookupIP :: "env \<Rightarrow> string \<Rightarrow> world \<Rightarrow> error option \<times> world" where
  "net_LookupIP env host w = (dns env (length w) host, w @ [LookupIP host])"

definition http_Get :: "env \<Rightarrow> string \<Rightarrow> world \<Rightarrow> (response option \<times> error option) \<times> world" where
  "http_Get env url w = (http env (length w) url, w @ [Get url])"

definition time_Sleep :: "nat \<Rightarrow> world \<Rightarrow> world" where
  "time_Sleep secs w = w @ [Sleep secs]"

definition fmt_Println :: "string \<Rightarrow> world \<Rightarrow> world" where
  "fmt_Println s w = w @ [Println s]"

definition os_MkdirAll :: "env \<Rightarrow> string \<Rightarrow> world \<Rightarrow> error option \<times> world" where
  "os_MkdirAll env p w = (mkdir env (length w) p, w @ [MkdirAll p])"

definition os_Create :: "env \<Rightarrow> string \<Rightarrow> world \<Rightarrow> error option \<times> world" where
  "os_Create env p w = (creat env (length w) p, w @ [Create p])"

definition io_Copy :: "env \<Rightarrow> string \<Rightarrow> string \<Rightarrow> world \<Rightarrow> error option \<times> world" where
  "io_Copy env p bytes w = (copy env (length w) p bytes, w @ [Copy p bytes])"

definition zip_OpenReader :: "env \<Rightarrow> string \<Rightarrow> world \<Rightarrow> (error + zip_File list) \<times> world" where
  "zip_OpenReader env p w = (unzip env (length w) p, w @ [OpenReader p])"

definition os_RemoveAll :: "env \<Rightarrow> string \<Rightarrow> world \<Rightarrow> error option \<times> world" where
  "os_RemoveAll env p w = (rmdir env (length w) p, w @ [RemoveAll p])"

section \<open>The report structures\<close>

text \<open>
  The structures of \<^verbatim>\<open>main.go\<close>. A pointer field that the code may find \<^verbatim>\<open>nil\<close> is an
  option. Of \<^verbatim>\<open>Repository\<close>, the fields the checker reads are kept. \<^verbatim>\<open>MdLink\<close> and
  \<^verbatim>\<open>MdFile\<close> are only ever built from addresses of local variables, so their fields are
  plain values; \<open>LinkState\<close> is the field \<^verbatim>\<open>State\<close> of \<^verbatim>\<open>MdLink\<close>.
\<close>

record Repository =
  Name :: "string option"
  HTMLURL :: "string option"
  DefaultBranch :: "string option"
  WebUrl :: "string option"

record MdLink =
  Link :: string
  LinkState :: string
  Succeed :: bool

record MdFile =
  Path :: string
  LinkList :: "MdLink list"

record MdReport =
  Repository :: "Repository option"
  MdFileList :: "MdFile list option"
  ZipUrl :: "string option"
  ZipName :: "string option"
  ZipPath :: "string option"
  State :: "string option"
  AllLinksOK :: "bool option"

section \<open>The link checker\<close>

text \<open>
  \<^verbatim>\<open>getUrlWithDelay\<close> sleeps, repeats the request and calls itself on status 429, without
  a bound: it is a partial function. Its \<^verbatim>\<open>defer res.Body.Close()\<close> comes before any look
  at \<^verbatim>\<open>err\<close>, and evaluating \<^verbatim>\<open>res.Body\<close> panics when \<^verbatim>\<open>res\<close> is \<^verbatim>\<open>nil\<close>.
\<close>

definition getFileExtension :: "string \<Rightarrow> string" where
  "getFileExtension s = last (Split (ToLower s) CHR ''.'')"

partial_function (option) getUrlWithDelay ::
  "env \<Rightarrow> string \<Rightarrow> world \<Rightarrow> (response option \<times> error option) outcome option" where
  "getUrlWithDelay env url w =
     (case http_Get env url (time_Sleep 60 w) of
        (r, w') \<Rightarrow>
          (case fst r of
             None \<Rightarrow> Some (Panic nil_deref w')
           | Some res \<Rightarrow>
               if StatusCode res = 429 then getUrlWithDelay env url w'
               else Some (Return r w')))"

declare getUrlWithDelay.simps [code]

text \<open>
  \<^verbatim>\<open>checkMdLink\<close>, in two parts. \<open>linkTarget\<close> is what the first two assignments leave of
  the matched text: the closing parenthesis and the label are cut off. \<open>resolveMdLink\<close>
  is the function up to the address to be requested, and returns the target with it;
  \<open>checkMdLink\<close> is the whole function. Slicing the empty string by \<^verbatim>\<open>l[:len(l)-1]\<close> panics.
\<close>

definition linkTarget :: "string \<Rightarrow> string" where
  "linkTarget l = (let l = butlast l in drop (length (FindString linkHeadRegexp l)) l)"

definition deref_WebUrl :: "MdReport \<Rightarrow> string option" where
  "deref_WebUrl md = (case Repository md of None \<Rightarrow> None | Some r \<Rightarrow> WebUrl r)"

definition resolveMdLink ::
  "env \<Rightarrow> MdReport \<Rightarrow> string \<Rightarrow> string \<Rightarrow> world \<Rightarrow> (string \<times> string) outcome" where
  "resolveMdLink env md l rpath w =
     (if l = [] then Panic ''slice bounds out of range [:-1]'' w
      else
        let l = linkTarget l;
            url = FindString httpUrlRegexp l;
            fqdn = fst (Cut l ''/'')
        in if \<not> Contains l '':'' \<and> url = []
           then (case net_LookupIP env fqdn w of
                   (err, w') \<Rightarrow>
                     if err = None \<and> getFileExtension l \<noteq> ''md''
                     then Return (l, ''http://'' @ l) w'
                     else if l \<noteq> [] \<and> [hd l] = ''/''
                     then (case deref_WebUrl md of
                             None \<Rightarrow> Panic nil_deref w'
                           | Some web \<Rightarrow> Return (l, web @ l) w')
                     else (case deref_WebUrl md of
                             None \<Rightarrow> Panic nil_deref w'
                           | Some web \<Rightarrow> Return (l, web @ rpath @ l) w'))
           else Return (l, url) w)"

definition statusResult :: "string \<Rightarrow> response option \<Rightarrow> world \<Rightarrow> (string \<times> bool) outcome" where
  "statusResult url res w =
     (case res of
        None \<Rightarrow> Panic nil_deref w
      | Some r \<Rightarrow>
          if StatusCode r \<ge> 400
          then Return (''[ERR] '' @ url @ '' response: '' @ Itoa (StatusCode r), False) w
          else Return (''[INF] '' @ url @ '' response: '' @ Itoa (StatusCode r), True) w)"

definition checkMdLink ::
  "env \<Rightarrow> MdReport \<Rightarrow> string \<Rightarrow> string \<Rightarrow> string \<Rightarrow> world \<Rightarrow> (string \<times> bool) outcome option" where
  "checkMdLink env md l rpath fpath w =
     (case resolveMdLink env md l rpath w of
        Panic msg w' \<Rightarrow> Some (Panic msg w')
      | Return (l, url) w1 \<Rightarrow>
          if HasPrefix l ''mailto:''
          then Some (Return (''[INF] '' @ url @ '' is not URL'', True) w1)
          else (case http_Get env url w1 of
                  ((res, err), w2) \<Rightarrow>
                    (case err of
                       Some e \<Rightarrow> Some (Return (''[ERR] Couldn't reach URL: '' @ e, False) w2)
                     | None \<Rightarrow>
                         (case res of
                            None \<Rightarrow> Some (Panic nil_deref w2)
                          | Some r \<Rightarrow>
                              if StatusCode r = 429
                              then bind (getUrlWithDelay env url w2)
                                     (\<lambda>r' w3. Some (statusResult url (fst r') w3))
                              else Some (statusResult url res w2)))))"


text \<open>
  \<^verbatim>\<open>findAndCheckMdFile\<close>: \<open>checkMatch\<close> is the body of the loop over the matches, which
  threads the report and the list \<^verbatim>\<open>links\<close>; \<open>fileRelativePath\<close> is the directory prefix
  computed at the top of the function.
\<close>

definition checkMatch ::
  "env \<Rightarrow> string \<Rightarrow> string \<Rightarrow> string \<Rightarrow> MdReport \<times> MdLink list \<Rightarrow> world
     \<Rightarrow> (MdReport \<times> MdLink list) outcome option" where
  "checkMatch env rpath fpath val acc w =
     (case acc of
        (md, links) \<Rightarrow>
          bind (checkMdLink env md val rpath fpath w)
            (\<lambda>res w'.
               case res of
                 (state, ok) \<Rightarrow>
                   if \<not> ok
                   then (case AllLinksOK md of
                           None \<Rightarrow> Some (Panic nil_deref w')
                         | Some _ \<Rightarrow>
                             Some (Return (md\<lparr>AllLinksOK := Some False\<rparr>,
                                           links @ [\<lparr>Link = val, LinkState = state, Succeed = ok\<rparr>]) w'))
                   else Some (Return (md, links) w')))"

primrec checkMatches ::
  "env \<Rightarrow> string \<Rightarrow> string \<Rightarrow> string list \<Rightarrow> MdReport \<times> MdLink list \<Rightarrow> world
     \<Rightarrow> (MdReport \<times> MdLink list) outcome option" where
  "checkMatches env rpath fpath [] acc w = Some (Return acc w)"
| "checkMatches env rpath fpath (val # vals) acc w =
     bind (checkMatch env rpath fpath val acc w) (checkMatches env rpath fpath vals)"

definition fileRelativePath :: "zip_File \<Rightarrow> string" where
  "fileRelativePath f =
     (let fileFullPath = fst (snd (Cut (FileHeader_Name f) ''/''));
          rel = fst (Cut fileFullPath (path_Base (FileHeader_Name f)))
      in if rel \<noteq> [] then ''/'' @ rel @ ''/'' else ''/'')"

definition findAndCheckMdFile :: "env \<Rightarrow> MdReport \<Rightarrow> zip_File \<Rightarrow> world \<Rightarrow> MdReport outcome option" where
  "findAndCheckMdFile env md f w =
     (let fileFullPath = fst (snd (Cut (FileHeader_Name f) ''/''));
          rpath = fileRelativePath f
      in if \<not> IsDir f
         then
           let fileName = path_Base (FileHeader_Name f);
               ext = getFileExtension fileName
           in if ToLower ext = ''md''
              then (case Data f of
                      OpenFails e \<Rightarrow>
                        (case State md of
                           None \<Rightarrow> Some (Panic nil_deref w)
                         | Some st \<Rightarrow>
                             Some (Return (md\<lparr>State := Some (st @ '' [ERR] Couldn't open '' @ fileName
                                             @ '' file: '' @ [CHR 0x0A, CHR 0x09] @ e)\<rparr>) w))
                    | ReadFails e \<Rightarrow>
                        (case State md of
                           None \<Rightarrow> Some (Panic nil_deref w)
                         | Some st \<Rightarrow>
                             Some (Return (md\<lparr>State := Some (st @ '' [ERR] Couldn't load '' @ fileName
                                             @ '': '' @ [CHR 0x0A, CHR 0x09] @ e)\<rparr>) w))
                    | Content content \<Rightarrow>
                        bind (checkMatches env rpath fileFullPath (FindAll mdLinkRegexp content) (md, []) w)
                          (\<lambda>acc w'.
                             case acc of
                               (md', links) \<Rightarrow>
                                 if length links > 0
                                 then (case MdFileList md' of
                                         None \<Rightarrow>
                                           Some (Return (md'\<lparr>MdFileList :=
                                                   Some [\<lparr>Path = fileFullPath, LinkList = links\<rparr>]\<rparr>) w')
                                       | Some fl \<Rightarrow>
                                           Some (Return (md'\<lparr>MdFileList :=
                                                   Some (fl @ [\<lparr>Path = fileFullPath, LinkList = links\<rparr>])\<rparr>) w'))
                                 else Some (Return md' w')))
              else Some (Return md w)
         else Some (Return md w))"

text \<open>
  \<^verbatim>\<open>checkMdFiles\<close>, with \<open>checkFiles\<close> for its loop over the archive. \<open>assign_State\<close> is
  the assignment \<^verbatim>\<open>*md.State = s\<close>, which panics when \<^verbatim>\<open>md.State\<close> is \<^verbatim>\<open>nil\<close>.
\<close>

primrec checkFiles :: "env \<Rightarrow> zip_File list \<Rightarrow> MdReport \<Rightarrow> world \<Rightarrow> MdReport outcome option" where
  "checkFiles env [] md w = Some (Return md w)"
| "checkFiles env (f # fs) md w = bind (findAndCheckMdFile env md f w) (checkFiles env fs)"

definition assign_State :: "MdReport \<Rightarrow> string \<Rightarrow> world \<Rightarrow> MdReport outcome" where
  "assign_State md s w =
     (case State md of
        None \<Rightarrow> Panic nil_deref w
      | Some _ \<Rightarrow> Return (md\<lparr>State := Some s\<rparr>) w)"

definition checkMdFiles :: "env \<Rightarrow> MdReport \<Rightarrow> world \<Rightarrow> MdReport outcome option" where
  "checkMdFiles env md w =
     (case ZipName md of
        None \<Rightarrow> Some (Panic nil_deref w)
      | Some zn \<Rightarrow>
          (case ZipPath md of
             None \<Rightarrow> Some (Panic nil_deref (fmt_Println zn w))
           | Some zp \<Rightarrow>
               (case zip_OpenReader env (filepath_Join env zp zn) (fmt_Println zn w) of
                  (Inl e, w1) \<Rightarrow>
                    Some (assign_State md
                            (''[ERR] Couldn't open archive '' @ zn @ ''.'' @ [CHR 0x0A, CHR 0x09] @ e) w1)
                | (Inr files, w1) \<Rightarrow>
                    bind (checkFiles env files md w1)
                      (\<lambda>md' w2.
                         case os_RemoveAll env zp w2 of
                           (Some e, w3) \<Rightarrow>
                             Some (assign_State md'
                                     (''[ERR] Couldn't cleanup '' @ zn @ ''.'' @ [CHR 0x0A, CHR 0x09] @ e) w3)
                         | (None, w3) \<Rightarrow> Some (Return md' w3)))))"

definition downloadGitArchive :: "env \<Rightarrow> MdReport \<Rightarrow> world \<Rightarrow> (MdReport \<times> error option) outcome" where
  "downloadGitArchive env md w =
     (case ZipPath md of
        None \<Rightarrow> Panic nil_deref w
      | Some zp \<Rightarrow>
     (case ZipName md of
        None \<Rightarrow> Panic nil_deref w
      | Some zn \<Rightarrow>
          let fullpath = filepath_Join env zp zn in
          (case os_MkdirAll env zp w of
             (Some e, w1) \<Rightarrow>
               (case assign_State md (''[ERR] Couldn't create '' @ zp @ '' path.''
                                       @ [CHR 0x0A, CHR 0x09] @ e) w1 of
                  Panic msg w' \<Rightarrow> Panic msg w'
                | Return md' w' \<Rightarrow> Return (md', Some e) w')
           | (None, w1) \<Rightarrow>
          (case os_Create env fullpath w1 of
             (Some e, w2) \<Rightarrow>
               (case assign_State md (''[ERR] Couldn't create '' @ fullpath @ '' file.''
                                       @ [CHR 0x0A, CHR 0x09] @ e) w2 of
                  Panic msg w' \<Rightarrow> Panic msg w'
                | Return md' w' \<Rightarrow> Return (md', Some e) w')
           | (None, w2) \<Rightarrow>
          (case ZipUrl md of
             None \<Rightarrow> Panic nil_deref w2
           | Some zu \<Rightarrow>
          (case http_Get env zu w2 of
             ((resp, Some e), w3) \<Rightarrow>
               (case assign_State md (''[ERR] Couldn't download '' @ zu @ '' file.''
                                       @ [CHR 0x0A, CHR 0x09] @ e) w3 of
                  Panic msg w' \<Rightarrow> Panic msg w'
                | Return md' w' \<Rightarrow> Return (md', Some e) w')
           | ((None, None), w3) \<Rightarrow> Panic nil_deref w3
           | ((Some r, None), w3) \<Rightarrow>
          (case io_Copy env fullpath (Body r) w3 of
             (Some e, w4) \<Rightarrow>
               (case assign_State md (''[ERR] Couldn't store downloaded file.''
                                       @ [CHR 0x0A, CHR 0x09] @ e) w4 of
                  Panic msg w' \<Rightarrow> Panic msg w'
                | Return md' w' \<Rightarrow> Return (md', Some e) w')
           | (None, w4) \<Rightarrow> Return (md, None) w4)))))))"

text \<open>
  \<^verbatim>\<open>CheckGitMdLinks\<close>. \<open>reportState\<close> is its last conditional, and \<open>new_MdReport\<close> is
  \<^verbatim>\<open>new(MdReport)\<close>. The \<^verbatim>\<open>sync.WaitGroup\<close> is a parameter passed by value, so the
  function works on a copy of its own that nothing else can reach: \<open>wg\<close> is the counter
  of that copy. \<^verbatim>\<open>Done\<close> lowers it and panics below zero; \<^verbatim>\<open>Wait\<close> returns at zero and
  otherwise never. The value returned is the report sent on the channel. \<open>spawned\<close> gives
  the arguments of the \<^verbatim>\<open>go\<close> statements of \<^verbatim>\<open>RunCLI\<close>, where each copy is taken after one
  more \<^verbatim>\<open>wg.Add(1)\<close>.
\<close>

definition reportState :: "MdReport \<Rightarrow> world \<Rightarrow> MdReport outcome" where
  "reportState md w =
     (if MdFileList md = None
      then Return (md\<lparr>State := Some ''[INF] No markdown links were found.''\<rparr>) w
      else (case AllLinksOK md of
              None \<Rightarrow> Panic nil_deref w
            | Some allOK \<Rightarrow>
                if allOK
                then Return (md\<lparr>State := Some ''[INF] No inactive/broken links were found.''\<rparr>) w
                else Return md w))"

definition new_MdReport :: MdReport where
  "new_MdReport =
     \<lparr>Repository = None, MdFileList = None, ZipUrl = None, ZipName = None, ZipPath = None,
      State = None, AllLinksOK = None\<rparr>"

definition CheckGitMdLinks ::
  "env \<Rightarrow> Repository option \<Rightarrow> nat \<Rightarrow> int \<Rightarrow> world \<Rightarrow> MdReport outcome option" where
  "CheckGitMdLinks env r routeNumber wg w =
     (case r of
        None \<Rightarrow> Some (Panic nil_deref w)
      | Some repo \<Rightarrow>
     (case HTMLURL repo of
        None \<Rightarrow> Some (Panic nil_deref w)
      | Some html \<Rightarrow>
     (case DefaultBranch repo of
        None \<Rightarrow> Some (Panic nil_deref w)
      | Some branch \<Rightarrow>
     (case Name repo of
        None \<Rightarrow> Some (Panic nil_deref w)
      | Some name \<Rightarrow>
          let downloadLink = html @ ''/archive/refs/heads/'' @ branch @ ''.zip'';
              archiveName = name @ ''.zip'';
              downloadPath = filepath_Join env (execPath env) name;
              repoUrl = html @ ''/blob/'' @ branch;
              md = new_MdReport\<lparr>AllLinksOK := Some True,
                     Repository := Some (repo\<lparr>WebUrl := Some repoUrl\<rparr>),
                     ZipUrl := Some downloadLink, ZipName := Some archiveName,
                     ZipPath := Some downloadPath\<rparr>
          in (case downloadGitArchive env md w of
                Panic msg w' \<Rightarrow> Some (Panic msg w')
              | Return (md', err) w' \<Rightarrow>
                  if wg - 1 < 0 then Some (Panic ''sync: negative WaitGroup counter'' w')
                  else if err = None
                  then (if wg - 1 = 0
                        then bind (checkMdFiles env md' w') (\<lambda>md'' w''. Some (reportState md'' w''))
                        else None)
                  else Some (reportState md' w'))))))"

definition spawned :: "Repository option list \<Rightarrow> (Repository option \<times> nat \<times> int) list" where
  "spawned repos = map (\<lambda>i. (repos ! i, i, int i + 1)) [0..<length repos]"


section \<open>Scenarios\<close>

text \<open>
  Concrete repositories, archive entries and environments. In \<open>quiet_env\<close> no name
  resolves, every request is answered with status 200, the file system never fails,
  and the archive is empty; the other environments change one oracle of it.
\<close>

definition demo_repo :: Repository where
  "demo_repo =
     \<lparr>Name = Some ''r'', HTMLURL = Some ''https://github.com/u/r'',
      DefaultBranch = Some ''main'', WebUrl = None\<rparr>"

definition demo_md :: MdReport where
  "demo_md =
     \<lparr>Repository = Some (demo_repo\<lparr>WebUrl := Some ''https://github.com/u/r/blob/main''\<rparr>),
      MdFileList = None,
      ZipUrl = Some ''https://github.com/u/r/archive/refs/heads/main.zip'',
      ZipName = Some ''r.zip'', ZipPath = Some ''.archives/r'',
      State = None, AllLinksOK = Some True\<rparr>"

definition quiet_env :: env where
  "quiet_env =
     \<lparr>execPath = ''.archives'',
      filepath_Join = (\<lambda>a b. a @ ''/'' @ b),
      dns = (\<lambda>n host. Some ''no such host''),
      http = (\<lambda>n url. (Some \<lparr>StatusCode = 200, Body = ''PK''\<rparr>, None)),
      mkdir = (\<lambda>n p. None),
      creat = (\<lambda>n p. None),
      copy = (\<lambda>n p bytes. None),
      unzip = (\<lambda>n p. Inr []),
      rmdir = (\<lambda>n p. None)\<rparr>"

definition nested_file :: zip_File where
  "nested_file =
     \<lparr>FileHeader_Name = ''r-main/a/b.md'', IsDir = False,
      Data = Content ''[t](x.md) [r](/docs/x.md)''\<rparr>"

definition readme_ok :: zip_File where
  "readme_ok =
     \<lparr>FileHeader_Name = ''r-main/README.md'', IsDir = False,
      Data = Content ''[site](https://example.com)''\<rparr>"

definition readme_unreadable :: zip_File where
  "readme_unreadable =
     \<lparr>FileHeader_Name = ''r-main/README.md'', IsDir = False,
      Data = OpenFails ''zip: unsupported compression algorithm''\<rparr>"


definition no_scheme_env :: env where
  "no_scheme_env =
     quiet_env\<lparr>http := (\<lambda>n url. if url = [] then (None, Some ''unsupported protocol scheme'')
                                  else (Some \<lparr>StatusCode = 200, Body = []\<rparr>, None))\<rparr>"

definition rate_limited_then_reset_env :: env where
  "rate_limited_then_reset_env =
     quiet_env\<lparr>http := (\<lambda>n url. if n = 0 then (Some \<lparr>StatusCode = 429, Body = []\<rparr>, None)
                                  else (None, Some ''read: connection reset by peer''))\<rparr>"

definition rate_limited_twice_env :: env where
  "rate_limited_twice_env =
     quiet_env\<lparr>http := (\<lambda>n url. if n < 4 then (Some \<lparr>StatusCode = 429, Body = []\<rparr>, None)
                                  else (Some \<lparr>StatusCode = 404, Body = []\<rparr>, None))\<rparr>"

definition not_found_env :: env where
  "not_found_env = quiet_env\<lparr>http := (\<lambda>n url. (Some \<lparr>StatusCode = 404, Body = ''404: Not Found''\<rparr>, None))\<rparr>"

definition offline_env :: env where
  "offline_env = quiet_env\<lparr>http := (\<lambda>n url. (None, Some ''dial tcp: connection refused''))\<rparr>"

definition healthy_env :: env where
  "healthy_env = quiet_env\<lparr>unzip := (\<lambda>n p. Inr [readme_ok])\<rparr>"

definition unreadable_env :: env where
  "unreadable_env = quiet_env\<lparr>unzip := (\<lambda>n p. Inr [readme_unreadable])\<rparr>"


section \<open>Facts about the library functions\<close>

text \<open>\<^verbatim>\<open>Split\<close> never returns the empty list, so an extension always exists.\<close>

lemma Split_not_Nil: "Split s c \<noteq> []"
  by (induction s) (auto split: list.splits)

lemma Index_single: "(Index s [c] \<noteq> None) = (c \<in> set s)"
  by (induction s) auto

lemma Contains_single: "Contains s [c] = (c \<in> set s)"
  using Index_single [of s c] by (simp add: Contains_def)







lemma linkTarget_Nil: "linkTarget [] = []"
  by (simp add: linkTarget_def)

lemma bind_Return:
  "bind m f = Some (Return y w') \<Longrightarrow> \<exists>x w. m = Some (Return x w) \<and> f x w = Some (Return y w')"
  by (auto simp: bind_def split: option.splits outcome.splits)

section \<open>Classification of link targets\<close>

text \<open>
  C1 (code bug). The claim: a target starting with a slash resolves to the web root
  followed by the target, any other target to the web root, the directory of the current
  file and the target; \<^verbatim>\<open>/docs/x.md\<close> in file \<^verbatim>\<open>a/b.md\<close> resolves to
  \<^verbatim>\<open><web root>/docs/x.md\<close> and \<^verbatim>\<open>x.md\<close> in the same file to \<^verbatim>\<open><web root>/a/x.md\<close>.
  For the archive entry \<^verbatim>\<open>r-main/a/b.md\<close> the code computes the directory prefix
  \<^verbatim>\<open>/a//\<close>: cutting the file name off \<^verbatim>\<open>a/b.md\<close> leaves \<^verbatim>\<open>a/\<close>, and a slash is added on
  both sides. So \<^verbatim>\<open>x.md\<close> resolves to \<^verbatim>\<open><web root>/a//x.md\<close>, which is the address
  requested, while \<^verbatim>\<open>/docs/x.md\<close> resolves as claimed.
\<close>

theorem relative_link_doubles_slash:
  "fileRelativePath nested_file = ''/a//''
   \<and> resolveMdLink quiet_env demo_md ''[t](x.md)'' (fileRelativePath nested_file) [] =
       Return (''x.md'', ''https://github.com/u/r/blob/main/a//x.md'') [LookupIP ''x.md'']
   \<and> resolveMdLink quiet_env demo_md ''[r](/docs/x.md)'' (fileRelativePath nested_file) [] =
       Return (''/docs/x.md'', ''https://github.com/u/r/blob/main/docs/x.md'') [LookupIP []]
   \<and> findAndCheckMdFile quiet_env demo_md nested_file [] =
       Some (Return demo_md
               [LookupIP ''x.md'', Get ''https://github.com/u/r/blob/main/a//x.md'',
                LookupIP [], Get ''https://github.com/u/r/blob/main/docs/x.md''])"
  by code_simp





text \<open>
  C10. For a target that contains a colon, does not begin with \<^verbatim>\<open>mailto:\<close> and is not
  matched by the address pattern, the address stays empty; \<^verbatim>\<open>checkMdLink\<close> issues a GET
  on the empty string and nothing else. Go's HTTP client answers a request without a
  scheme with an error; given that, the link fails, and the loop body sets
  \<^verbatim>\<open>AllLinksOK\<close> to false and records the link.
\<close>

theorem unrecognised_scheme_requests_empty_url:
  assumes "CHR '':'' \<in> set (linkTarget l)"
    and "\<not> prefix ''mailto:'' (linkTarget l)"
    and "FindString httpUrlRegexp (linkTarget l) = []"
    and "snd (http env (length w) []) = Some e"
    and "AllLinksOK md = Some b"
  shows "resolveMdLink env md l rpath w = Return (linkTarget l, []) w
       \<and> checkMdLink env md l rpath fpath w =
           Some (Return (''[ERR] Couldn't reach URL: '' @ e, False) (w @ [Get []]))
       \<and> checkMatch env rpath fpath l (md, links) w =
           Some (Return (md\<lparr>AllLinksOK := Some False\<rparr>,
                         links @ [\<lparr>Link = l, LinkState = ''[ERR] Couldn't reach URL: '' @ e,
                                   Succeed = False\<rparr>])
                        (w @ [Get []]))"
proof -
  from assms(1) have ne: "l \<noteq> []" by (auto simp: linkTarget_Nil)
  have res: "resolveMdLink env md l rpath w = Return (linkTarget l, []) w"
    using ne assms(1,3) by (simp add: resolveMdLink_def Let_def Contains_single)
  obtain r where ans: "http env (length w) [] = (r, Some e)"
    using assms(4) by (cases "http env (length w) []") simp
  have chk: "checkMdLink env md l rpath fpath w =
      Some (Return (''[ERR] Couldn't reach URL: '' @ e, False) (w @ [Get []]))"
    using assms(2) by (simp add: checkMdLink_def res HasPrefix_def http_Get_def ans)
  show ?thesis
    using assms(5) by (simp add: res chk checkMatch_def bind_def)
qed

theorem unrecognised_scheme_requests_empty_url_witness:
  "CHR '':'' \<in> set (linkTarget ''[f](ftp://example.com/f)'')
   \<and> \<not> prefix ''mailto:'' (linkTarget ''[f](ftp://example.com/f)'')
   \<and> FindString httpUrlRegexp (linkTarget ''[f](ftp://example.com/f)'') = []
   \<and> checkMatch no_scheme_env ''/'' ''README.md'' ''[f](ftp://example.com/f)'' (demo_md, []) [] =
       Some (Return (demo_md\<lparr>AllLinksOK := Some False\<rparr>,
                     [\<lparr>Link = ''[f](ftp://example.com/f)'',
                       LinkState = ''[ERR] Couldn't reach URL: unsupported protocol scheme'',
                       Succeed = False\<rparr>])
                    [Get []])"
proof -
  have t: "linkTarget ''[f](ftp://example.com/f)'' = ''ftp://example.com/f''"
    by code_simp
  have h1: "CHR '':'' \<in> set (linkTarget ''[f](ftp://example.com/f)'')"
    unfolding t by simp
  have h2: "\<not> prefix ''mailto:'' (linkTarget ''[f](ftp://example.com/f)'')"
    unfolding t by simp
  have h3: "FindString httpUrlRegexp (linkTarget ''[f](ftp://example.com/f)'') = []"
    by code_simp
  have h4: "snd (http no_scheme_env (length ([] :: world)) []) = Some ''unsupported protocol scheme''"
    by code_simp
  have h5: "AllLinksOK demo_md = Some True"
    by code_simp
  show ?thesis
    using h1 h2 h3
      unrecognised_scheme_requests_empty_url [OF h1 h2 h3 h4 h5, of "''/''" "''README.md''" "[]"]
    by simp
qed


section \<open>Rate limiting\<close>

text \<open>
  One round of \<^verbatim>\<open>getUrlWithDelay\<close>: a sleep of 60 seconds, then the same request again.
  On status 429 the function starts over; any other status is returned; a missing
  response is a panic.
\<close>

lemma getUrlWithDelay_retry:
  assumes "http env (Suc (length w)) url = (Some res, err)" and "StatusCode res = 429"
  shows "getUrlWithDelay env url w = getUrlWithDelay env url (w @ [Sleep 60, Get url])"
  using assms
  by (subst getUrlWithDelay.simps) (simp add: http_Get_def time_Sleep_def)

lemma getUrlWithDelay_final:
  assumes "http env (Suc (length w)) url = (Some res, err)" and "StatusCode res \<noteq> 429"
  shows "getUrlWithDelay env url w = Some (Return (Some res, err) (w @ [Sleep 60, Get url]))"
  using assms
  by (subst getUrlWithDelay.simps) (simp add: http_Get_def time_Sleep_def)

lemma getUrlWithDelay_nil_response:
  assumes "fst (http env (Suc (length w)) url) = None"
  shows "getUrlWithDelay env url w = Some (Panic nil_deref (w @ [Sleep 60, Get url]))"
  using assms
  by (subst getUrlWithDelay.simps) (simp add: http_Get_def time_Sleep_def)

text \<open>Whatever \<^verbatim>\<open>getUrlWithDelay\<close> returns carries a response whose status is not 429.\<close>

lemma getUrlWithDelay_never_returns_429:
  assumes "getUrlWithDelay env url w = Some y"
  shows "case y of
           Panic msg w' \<Rightarrow> True
         | Return r w' \<Rightarrow> (case fst r of None \<Rightarrow> False | Some res \<Rightarrow> StatusCode res \<noteq> 429)"
proof (rule getUrlWithDelay.raw_induct
    [where P = "\<lambda>env url w y. case y of
           Panic msg w' \<Rightarrow> True
         | Return r w' \<Rightarrow> (case fst r of None \<Rightarrow> False | Some res \<Rightarrow> StatusCode res \<noteq> 429)",
     OF _ assms])
  fix f env url w y
  assume IH: "\<And>env url w y. f env url w = Some y \<Longrightarrow>
      (case y of
         Panic msg w' \<Rightarrow> True
       | Return r w' \<Rightarrow> (case fst r of None \<Rightarrow> False | Some res \<Rightarrow> StatusCode res \<noteq> 429))"
    and body: "(case http_Get env url (time_Sleep 60 w) of
      (r, w') \<Rightarrow>
        (case fst r of
           None \<Rightarrow> Some (Panic nil_deref w')
         | Some res \<Rightarrow>
             if StatusCode res = 429 then f env url w'
             else Some (Return r w'))) = Some y"
  show "case y of
          Panic msg w' \<Rightarrow> True
        | Return r w' \<Rightarrow> (case fst r of None \<Rightarrow> False | Some res \<Rightarrow> StatusCode res \<noteq> 429)"
    using body IH
    by (auto split: prod.splits option.splits if_splits)
qed

text \<open>There is no bound on the rounds: under a server that always answers 429 the call never returns.\<close>

lemma getUrlWithDelay_unbounded:
  assumes "\<And>n. \<exists>res err. http env n url = (Some res, err) \<and> StatusCode res = 429"
  shows "getUrlWithDelay env url w = None"
proof (cases "getUrlWithDelay env url w")
  case None
  then show ?thesis .
next
  case (Some y)
  have "\<not> (\<forall>n. \<exists>res err. http env n url = (Some res, err) \<and> StatusCode res = 429)"
  proof (rule getUrlWithDelay.raw_induct
      [where P = "\<lambda>env url w y.
         \<not> (\<forall>n. \<exists>res err. http env n url = (Some res, err) \<and> StatusCode res = 429)",
       OF _ Some])
    fix f env url w y
    assume IH: "\<And>env url w y. f env url w = Some y \<Longrightarrow>
        \<not> (\<forall>n. \<exists>res err. http env n url = (Some res, err) \<and> StatusCode res = 429)"
      and body: "(case http_Get env url (time_Sleep 60 w) of
        (r, w') \<Rightarrow>
          (case fst r of
             None \<Rightarrow> Some (Panic nil_deref w')
           | Some res \<Rightarrow>
               if StatusCode res = 429 then f env url w'
               else Some (Return r w'))) = Some y"
    show "\<not> (\<forall>n. \<exists>res err. http env n url = (Some res, err) \<and> StatusCode res = 429)"
    proof
      assume all: "\<forall>n. \<exists>res err. http env n url = (Some res, err) \<and> StatusCode res = 429"
      then obtain res err
        where h: "http env (Suc (length w)) url = (Some res, err)" "StatusCode res = 429"
        by blast
      from body h have "f env url (w @ [Sleep 60, Get url]) = Some y"
        by (simp add: http_Get_def time_Sleep_def)
      from IH [OF this] all show False by blast
    qed
  qed
  with assms show ?thesis by blast
qed

text \<open>
  A link answered 429, 429 and then 404: two rounds of sleep and request, and the last
  answer alone decides.
\<close>

lemma rate_limited_link_decided_by_last_answer:
  "checkMdLink rate_limited_twice_env demo_md ''[a](https://example.com)'' ''/'' ''README.md'' [] =
     Some (Return (''[ERR] https://example.com response: 404'', False)
             [Get ''https://example.com'', Sleep 60, Get ''https://example.com'',
              Sleep 60, Get ''https://example.com''])"
  by code_simp

text \<open>
  C4 (code bug). The claim: a status of 429 never gives a broken outcome; the request is
  repeated after a pause of 60, without limit, until a status other than 429 or a hard
  network error occurs, and the last result decides the outcome. As long as the answers
  are statuses the code does so (lemmas above). When a repeated request fails in the
  transport, \<^verbatim>\<open>http.Get\<close> returns no response, and \<^verbatim>\<open>defer res.Body.Close()\<close> in
  \<^verbatim>\<open>getUrlWithDelay\<close> dereferences it before the error is looked at: the process panics
  and the link gets no outcome. Here the first answer is 429 and the second a reset
  connection.
\<close>

theorem retry_transport_error_panics:
  "checkMdLink rate_limited_then_reset_env demo_md ''[a](https://example.com)'' ''/'' ''README.md'' [] =
     Some (Panic nil_deref
             [Get ''https://example.com'', Sleep 60, Get ''https://example.com''])"
  by code_simp

section \<open>The archive download\<close>

text \<open>
  \<^verbatim>\<open>downloadGitArchive\<close> never reads the status of the response: when directory, file,
  request and copy raise no error, the body is stored and no error is returned.
\<close>

lemma download_ignores_status:
  assumes "ZipPath md = Some zp" and "ZipName md = Some zn" and "ZipUrl md = Some zu"
    and "mkdir env (length w) zp = None"
    and "creat env (Suc (length w)) (filepath_Join env zp zn) = None"
    and "http env (Suc (Suc (length w))) zu = (Some r, None)"
    and "copy env (Suc (Suc (Suc (length w)))) (filepath_Join env zp zn) (Body r) = None"
  shows "downloadGitArchive env md w =
           Return (md, None)
             (w @ [MkdirAll zp, Create (filepath_Join env zp zn), Get zu,
                   Copy (filepath_Join env zp zn) (Body r)])"
  using assms
  by (simp add: downloadGitArchive_def Let_def os_MkdirAll_def os_Create_def http_Get_def io_Copy_def)

text \<open>
  With \<^verbatim>\<open>md.State\<close> unset, every error path of the download panics: if the function
  returns, it returns no error and the report unchanged.
\<close>

lemma download_without_State:
  assumes "downloadGitArchive env md w = Return (md', err) w'" and "State md = None"
  shows "err = None \<and> md' = md"
  using assms
  by (auto simp: downloadGitArchive_def Let_def assign_State_def
           split: option.splits prod.splits outcome.splits)

text \<open>
  C5 (code bug). The claim: the fetcher fails when the request errors, when the status
  of the response is not a success, or when creating or writing the local file fails;
  a response with status 404 is a failure and its body is not stored as the archive.
  The code has no check of the status: for a 404 answer it writes the error page into
  the archive file and returns no error.
\<close>

theorem download_stores_error_page:
  "downloadGitArchive not_found_env demo_md [] =
     Return (demo_md, None)
       [MkdirAll ''.archives/r'', Create ''.archives/r/r.zip'',
        Get ''https://github.com/u/r/archive/refs/heads/main.zip'',
        Copy ''.archives/r/r.zip'' ''404: Not Found'']"
  by code_simp

section \<open>The report of a repository\<close>

text \<open>
  The loops change \<^verbatim>\<open>State\<close> and \<^verbatim>\<open>MdFileList\<close> only at their ends, and \<^verbatim>\<open>AllLinksOK\<close>
  only to false. An unset \<^verbatim>\<open>State\<close> stays unset, and a file list is only ever allocated
  together with a failed link.
\<close>

lemma checkMatch_keeps:
  assumes "checkMatch env rp fp val (md, links) w = Some (Return (md', links') w')"
  shows "State md' = State md \<and> MdFileList md' = MdFileList md
       \<and> (AllLinksOK md' = AllLinksOK md \<and> links' = links \<or> AllLinksOK md' = Some False)"
  using assms
  by (auto simp: checkMatch_def dest!: bind_Return split: option.splits if_splits)

lemma checkMatches_keeps:
  assumes "checkMatches env rp fp vals (md, links) w = Some (Return (md', links') w')"
  shows "State md' = State md \<and> MdFileList md' = MdFileList md
       \<and> (AllLinksOK md' = AllLinksOK md \<and> links' = links \<or> AllLinksOK md' = Some False)"
  using assms
proof (induction vals arbitrary: md links w)
  case Nil
  then show ?case by simp
next
  case (Cons val vals)
  from Cons.prems obtain acc w1 where
    step: "checkMatch env rp fp val (md, links) w = Some (Return acc w1)"
    and rest: "checkMatches env rp fp vals acc w1 = Some (Return (md', links') w')"
    by (auto dest!: bind_Return)
  obtain md1 links1 where acc: "acc = (md1, links1)" by (cases acc)
  from checkMatch_keeps [OF step [unfolded acc]] Cons.IH [OF rest [unfolded acc]]
  show ?case by auto
qed

lemma findAndCheckMdFile_keeps:
  assumes "findAndCheckMdFile env md f w = Some (Return md' w')"
    and "State md = None"
    and "MdFileList md \<noteq> None \<longrightarrow> AllLinksOK md = Some False"
  shows "State md' = None \<and> (MdFileList md' \<noteq> None \<longrightarrow> AllLinksOK md' = Some False)"
proof (cases "\<not> IsDir f \<and> ToLower (getFileExtension (path_Base (FileHeader_Name f))) = ''md''")
  case False
  then have "findAndCheckMdFile env md f w = Some (Return md w)"
    by (cases "IsDir f") (simp_all add: findAndCheckMdFile_def Let_def)
  with assms show ?thesis by simp
next
  case True
  show ?thesis
  proof (cases "Data f")
    case (OpenFails e)
    with True assms show ?thesis by (auto simp: findAndCheckMdFile_def Let_def)
  next
    case (ReadFails e)
    with True assms show ?thesis by (auto simp: findAndCheckMdFile_def Let_def)
  next
    case (Content content)
    with True assms(1) obtain md1 links w1 where
      loop: "checkMatches env (fileRelativePath f) (fst (snd (Cut (FileHeader_Name f) ''/'')))
               (FindAll mdLinkRegexp content) (md, []) w = Some (Return (md1, links) w1)"
      and fin: "(if length links > 0
                 then (case MdFileList md1 of
                         None \<Rightarrow> Some (Return (md1\<lparr>MdFileList :=
                                   Some [\<lparr>Path = fst (snd (Cut (FileHeader_Name f) ''/'')),
                                          LinkList = links\<rparr>]\<rparr>) w1)
                       | Some fl \<Rightarrow> Some (Return (md1\<lparr>MdFileList :=
                                   Some (fl @ [\<lparr>Path = fst (snd (Cut (FileHeader_Name f) ''/'')),
                                                LinkList = links\<rparr>])\<rparr>) w1))
                 else Some (Return md1 w1)) = Some (Return md' w')"
      by (auto simp: findAndCheckMdFile_def Let_def dest!: bind_Return)
    from checkMatches_keeps [OF loop] assms(2,3) fin show ?thesis
      by (auto split: if_splits option.splits)
  qed
qed

lemma checkFiles_keeps:
  assumes "checkFiles env fs md w = Some (Return md' w')"
    and "State md = None"
    and "MdFileList md \<noteq> None \<longrightarrow> AllLinksOK md = Some False"
  shows "State md' = None \<and> (MdFileList md' \<noteq> None \<longrightarrow> AllLinksOK md' = Some False)"
  using assms
proof (induction fs arbitrary: md w)
  case Nil
  then show ?case by simp
next
  case (Cons f fs)
  from Cons.prems(1) obtain md1 w1 where
    step: "findAndCheckMdFile env md f w = Some (Return md1 w1)"
    and rest: "checkFiles env fs md1 w1 = Some (Return md' w')"
    by (auto dest!: bind_Return)
  from findAndCheckMdFile_keeps [OF step Cons.prems(2,3)]
  show ?case using Cons.IH [OF rest] by blast
qed

lemma checkMdFiles_keeps:
  assumes "checkMdFiles env md w = Some (Return md' w')"
    and "State md = None"
    and "MdFileList md \<noteq> None \<longrightarrow> AllLinksOK md = Some False"
  shows "State md' = None \<and> (MdFileList md' \<noteq> None \<longrightarrow> AllLinksOK md' = Some False)"
  using assms(1)
  by (auto simp: checkMdFiles_def assign_State_def assms(2)
           dest!: bind_Return dest: checkFiles_keeps [OF _ assms(2,3)]
           split: option.splits prod.splits sum.splits)

lemma checkMdFiles_fresh:
  assumes "checkMdFiles env md w = Some (Return md' w')"
  shows "State md = None \<and> MdFileList md = None \<longrightarrow>
           State md' = None \<and> (MdFileList md' \<noteq> None \<longrightarrow> AllLinksOK md' = Some False)"
  using checkMdFiles_keeps [OF assms] by simp

text \<open>
  The last conditional of \<^verbatim>\<open>CheckGitMdLinks\<close> replaces whatever state there is when no
  file list was allocated.
\<close>

lemma reportState_overwrites:
  "MdFileList md = None \<Longrightarrow>
     reportState md w = Return (md\<lparr>State := Some ''[INF] No markdown links were found.''\<rparr>) w"
  by (simp add: reportState_def)

text \<open>
  Every report that \<^verbatim>\<open>CheckGitMdLinks\<close> delivers either says that no markdown links were
  found, or has no state and lists failed links. Neither an error text nor the message
  about no broken links is ever delivered.
\<close>

lemma delivered_state:
  assumes "CheckGitMdLinks env r n wg w = Some (Return md w')"
  shows "State md = Some ''[INF] No markdown links were found.''
       \<or> State md = None \<and> MdFileList md \<noteq> None \<and> AllLinksOK md = Some False"
  using assms
  by (auto simp: CheckGitMdLinks_def Let_def new_MdReport_def reportState_def
           dest!: bind_Return download_without_State checkMdFiles_fresh
           split: option.splits outcome.splits prod.splits if_splits)

text \<open>
  C6 (code bug). The claim: when the download of the archive fails, the report has no
  file entries and its state holds the text of the download failure, not a later
  message. In the code the failing download writes the text through \<^verbatim>\<open>*md.State\<close>, and
  \<^verbatim>\<open>md.State\<close> of a report made by \<^verbatim>\<open>new(MdReport)\<close> is \<^verbatim>\<open>nil\<close>: the process panics after
  the failed request and no report is delivered.
\<close>

theorem download_failure_panics:
  "CheckGitMdLinks offline_env (Some demo_repo) 0 1 [] =
     Some (Panic nil_deref
             [MkdirAll ''.archives/r'', Create ''.archives/r/r.zip'',
              Get ''https://github.com/u/r/archive/refs/heads/main.zip''])"
  by code_simp

text \<open>
  C7 (code bug). The claim: when markdown files were found and every link is ok, the
  final state is the message that no inactive or broken links were found, distinct from
  the message that no markdown links were found, which is for repositories without
  markdown files. In the code the file list is only allocated for a file with a failed
  link, so a repository whose only link answers 200 ends with the state
  \<^verbatim>\<open>[INF] No markdown links were found.\<close>
\<close>

theorem healthy_repository_reports_no_links:
  "CheckGitMdLinks healthy_env (Some demo_repo) 0 1 [] =
     Some (Return (demo_md\<lparr>State := Some ''[INF] No markdown links were found.''\<rparr>)
             [MkdirAll ''.archives/r'', Create ''.archives/r/r.zip'',
              Get ''https://github.com/u/r/archive/refs/heads/main.zip'',
              Copy ''.archives/r/r.zip'' ''PK'', Println ''r.zip'',
              OpenReader ''.archives/r/r.zip'', Get ''https://example.com'',
              RemoveAll ''.archives/r''])"
  by code_simp

text \<open>
  With \<^verbatim>\<open>md.State\<close> unset, a markdown entry that cannot be opened or read makes
  \<^verbatim>\<open>findAndCheckMdFile\<close> panic.
\<close>

lemma unreadable_entry_without_State:
  assumes "State md = None" and "\<not> IsDir f"
    and "ToLower (getFileExtension (path_Base (FileHeader_Name f))) = ''md''"
    and "Data f = OpenFails e \<or> Data f = ReadFails e"
  shows "findAndCheckMdFile env md f w = Some (Panic nil_deref w)"
  using assms by (auto simp: findAndCheckMdFile_def Let_def)

text \<open>
  C8 (code bug). The claim: a markdown entry that cannot be opened or read adds an error
  message to the state of the repository and processing goes on, without a fault. The
  code builds the message from \<^verbatim>\<open>*md.State\<close>, which is \<^verbatim>\<open>nil\<close> at that point: for an
  archive whose \<^verbatim>\<open>README.md\<close> cannot be opened the process panics right after the
  archive was opened.
\<close>

theorem unreadable_entry_panics:
  "CheckGitMdLinks unreadable_env (Some demo_repo) 0 1 [] =
     Some (Panic nil_deref
             [MkdirAll ''.archives/r'', Create ''.archives/r/r.zip'',
              Get ''https://github.com/u/r/archive/refs/heads/main.zip'',
              Copy ''.archives/r/r.zip'' ''PK'', Println ''r.zip'',
              OpenReader ''.archives/r/r.zip''])"
  by code_simp

section \<open>The barrier between download and validation\<close>

text \<open>
  A worker that would deliver a report with a counter of one never returns with a
  larger counter: its download succeeded, and it waits on a copy nobody else lowers.
\<close>

lemma private_counter_blocks:
  assumes "CheckGitMdLinks env r n 1 w = Some (Return md w')" and "1 < wg"
  shows "CheckGitMdLinks env r n wg w = None"
  using assms
  by (auto simp: CheckGitMdLinks_def Let_def new_MdReport_def
           dest: download_without_State
           split: option.splits outcome.splits prod.splits if_splits)

text \<open>
  C9 (code bug). The claim: every worker's download completes before any worker goes on
  to extraction and validation, a worker whose download fails still signals its arrival,
  no worker deadlocks and every worker delivers its report. In the code each worker gets
  a copy of the wait group: for two repositories the copies count 1 and 2. The first
  worker goes on as soon as its own download is done, whatever the second does; the
  second, after a successful download, waits forever and delivers nothing.
\<close>

theorem second_worker_never_returns:
  "spawned [Some demo_repo, Some demo_repo] = [(Some demo_repo, 0, 1), (Some demo_repo, 1, 2)]
   \<and> CheckGitMdLinks healthy_env (Some demo_repo) 0 1 [] \<noteq> None
   \<and> CheckGitMdLinks healthy_env (Some demo_repo) 1 2 [] = None"
  by code_simp

end
